theory Spec2Isabelle
  imports Main "HOL-Library.Sublist" "HOL-Library.AList"
begin

section \<open>Files, messages and the world the server acts on\<close>

text \<open>
  The server (\<^verbatim>\<open>src/unnamed/part_000\<close>) keeps its state on disk and in module-level
  registries. The model threads one record through every handler:
  the disk as an association list in directory order, the clock read by \<^verbatim>\<open>new Date()\<close>,
  the supply behind \<^verbatim>\<open>uuidv4()\<close>, the registered sockets, the catalog of local videos, and
  a trace of what the handlers did to the outside (files written and removed, encoder
  runs started and finished, messages sent).

  The sockets are kept once, as pairs of a client id and the socket's \<^verbatim>\<open>readyState\<close>: the
  upgrade callback (lines 168-214) enters every connection both into the map \<^verbatim>\<open>clients\<close> and,
  through \<^verbatim>\<open>handleUpgrade\<close>, into \<^verbatim>\<open>wss.clients\<close>, and closing removes it from both.
  Directories are created where the source creates them (\<^verbatim>\<open>fs.mkdir\<close> with
  \<^verbatim>\<open>recursive\<close>) and are not recorded; a path under \<open>Hls\<close> stands for a file in the
  output directory of an identity.
\<close>

type_synonym videoId = nat

text \<open>
  \<^verbatim>\<open>path.join(tusUploadDir, name)\<close>, \<^verbatim>\<open>path.join(uploadsDir, name)\<close> and
  \<^verbatim>\<open>path.join(hlsDir, videoId, name)\<close>.
\<close>

datatype path = Tus string | Upl string | Hls videoId string

text \<open>One \<^verbatim>\<open>#EXT-X-STREAM-INF\<close> line of the master playlist with the URI under it.\<close>

datatype stream_inf =
  StreamInf (bandwidth: "int option") (res_width: int) (res_height: int) (uri: string)

text \<open>
  What a file holds, as far as the server reads it: \<open>Iso t\<close> is the text
  \<^verbatim>\<open>new Date(t).toISOString()\<close>; \<open>Info s\<close> is a JSON document whose \<^verbatim>\<open>size\<close> field is the
  number \<open>s\<close> (\<open>None\<close>: no numeric size); \<open>Master es\<close> is a master playlist;
  \<open>Bytes\<close> is anything else (media, or text that is neither a date nor JSON).
\<close>

datatype body = Iso int | Info "nat option" | Master "stream_inf list" | Bytes

datatype node = File nat body | Dir

datatype js_error =
    ReferenceError string
  | TypeError string
  | ProbeError string
  | FfmpegError string
  | PlaylistMissing videoId

datatype video_info = VideoInfo (vi_id: videoId) (vi_filename: string) (vi_hlsUrl: path) (vi_timestamp: int)

datatype message =
    ProcessingStarted videoId
  | VideoProcessed videoId path
  | VideoError "videoId option" js_error
  | LocalVideoProcessed video_info

datatype event =
    Wrote path body
  | Removed path
  | Started path videoId string
  | Ended videoId string
  | Failed videoId string string
  | Sent nat message

record world =
  disk :: "(path \<times> node) list"
  clock :: int
  next_id :: nat
  sockets :: "(nat \<times> nat) list"
  processedLocalVideos :: "(string \<times> video_info) list"
  trace :: "event list"

text \<open>
  What the module takes from outside its own text. \<open>WebSocket_OPEN\<close> is the value of the
  expression \<^verbatim>\<open>WebSocket.OPEN\<close>: the module imports only \<^verbatim>\<open>WebSocketServer\<close> from
  \<^verbatim>\<open>ws\<close> (line 12) and declares no \<^verbatim>\<open>WebSocket\<close>, so the value is \<open>None\<close> unless the
  host supplies a global of that name. \<open>ffprobe\<close> gives width and height of
  \<^verbatim>\<open>metadata.streams[0]\<close>. \<open>ffmpeg\<close> is the encoder run on a source for an identity and
  an output name: the files it leaves in the output directory, its error message if it
  fails, and how long it takes. \<open>scaled\<close> is \<^verbatim>\<open>Math.round(targetHeight * (width / height))\<close>
  in the host's double arithmetic, with arguments target height, width, height.
\<close>

datatype run = Run (wrote: "string list") (failure: "string option") (took: nat)

record host =
  WebSocket_OPEN :: "nat option"
  ffprobe :: "path \<Rightarrow> js_error + int \<times> int"
  ffmpeg :: "path \<Rightarrow> videoId \<Rightarrow> string \<Rightarrow> run"
  scaled :: "int \<Rightarrow> int \<Rightarrow> int \<Rightarrow> int"

subsection \<open>File system calls\<close>

definition exists_at :: "(path \<times> node) list \<Rightarrow> path \<Rightarrow> bool" where
  "exists_at d p = (map_of d p \<noteq> None)"

text \<open>\<^verbatim>\<open>fs.readdir(tusUploadDir)\<close>\<close>

fun readdir_tus :: "(path \<times> node) list \<Rightarrow> string list" where
  "readdir_tus [] = []"
| "readdir_tus ((Tus n, _) # d) = n # readdir_tus d"
| "readdir_tus (_ # d) = readdir_tus d"

text \<open>
  \<^verbatim>\<open>fs.writeFile(p, b)\<close>. The size recorded for a file the server writes is never read: only
  uploads are passed to \<^verbatim>\<open>fs.stat\<close>, and the server writes none.
\<close>

definition writeFile :: "path \<Rightarrow> body \<Rightarrow> world \<Rightarrow> world" where
  "writeFile p b w =
     w\<lparr>disk := AList.update p (File 0 b) (disk w), trace := trace w @ [Wrote p b]\<rparr>"

text \<open>
  \<^verbatim>\<open>fs.unlink(p)\<close>; every call site swallows its failure, so removing a missing file
  changes nothing.
\<close>

definition unlink :: "path \<Rightarrow> world \<Rightarrow> world" where
  "unlink p w =
     (if exists_at (disk w) p
      then w\<lparr>disk := AList.delete p (disk w), trace := trace w @ [Removed p]\<rparr>
      else w)"

definition uuidv4 :: "world \<Rightarrow> videoId \<times> world" where
  "uuidv4 w = (next_id w, w\<lparr>next_id := Suc (next_id w)\<rparr>)"

subsection \<open>Strings\<close>

definition endsWith :: "string \<Rightarrow> string \<Rightarrow> bool" where
  "endsWith s suf = suffix suf s"

text \<open>\<^verbatim>\<open>s.replace(pat, rep)\<close> with a string pattern: the first occurrence only.\<close>

fun replace :: "string \<Rightarrow> string \<Rightarrow> string \<Rightarrow> string" where
  "replace pat rep [] = (if pat = [] then rep else [])"
| "replace pat rep (c # s) =
     (if prefix pat (c # s) then rep @ drop (length pat) (c # s)
      else c # replace pat rep s)"

subsection \<open>The encoder\<close>

definition start_ffmpeg :: "path \<Rightarrow> videoId \<Rightarrow> string \<Rightarrow> world \<Rightarrow> world" where
  "start_ffmpeg src vid out w = w\<lparr>trace := trace w @ [Started src vid out]\<rparr>"

fun leave_files :: "videoId \<Rightarrow> string list \<Rightarrow> (path \<times> node) list \<Rightarrow> (path \<times> node) list" where
  "leave_files vid [] d = d"
| "leave_files vid (n # ns) d = leave_files vid ns (AList.update (Hls vid n) (File 0 Bytes) d)"

text \<open>
  Creating the promise starts the encoder (\<^verbatim>\<open>.run()\<close> is called in the executor). Awaiting
  the promise suspends the handler: \<open>env\<close> is what other handlers do to the world
  meanwhile; the run then leaves its files and either ends or rejects with its error. A run
  that is started and never awaited stays in the trace as started.
\<close>

definition await_ffmpeg ::
  "host \<Rightarrow> (world \<Rightarrow> world) \<Rightarrow> path \<Rightarrow> videoId \<Rightarrow> string \<Rightarrow> world \<Rightarrow> world \<times> js_error option" where
  "await_ffmpeg h env src vid out w0 =
     (let w = env w0; r = ffmpeg h src vid out in
      (w\<lparr>disk := leave_files vid (wrote r) (disk w),
         clock := clock w + int (took r),
         trace := trace w @ [case failure r of None \<Rightarrow> Ended vid out | Some m \<Rightarrow> Failed vid out m]\<rparr>,
       map_option FfmpegError (failure r)))"

text \<open>No other handler runs during the awaits.\<close>

definition alone :: "world \<Rightarrow> world" where
  "alone w = w"

text \<open>\<^verbatim>\<open>processVideo\<close> (lines 41-93): one encoder run writing \<^verbatim>\<open>playlist.m3u8\<close>.\<close>

definition processVideo ::
  "host \<Rightarrow> (world \<Rightarrow> world) \<Rightarrow> path \<Rightarrow> videoId \<Rightarrow> world \<Rightarrow> world \<times> js_error option" where
  "processVideo h env inputPath vid w =
     await_ffmpeg h env inputPath vid ''playlist.m3u8''
       (start_ffmpeg inputPath vid ''playlist.m3u8'' w)"

subsection \<open>Broadcasting\<close>

text \<open>
  \<^verbatim>\<open>clients.forEach\<close> / \<^verbatim>\<open>wss.clients.forEach\<close> with the test
  \<^verbatim>\<open>readyState === WebSocket.OPEN\<close>: the test is evaluated for every registered socket,
  and evaluating an unbound \<^verbatim>\<open>WebSocket\<close> throws before anything is sent.
\<close>

fun forEach_send :: "nat option \<Rightarrow> message \<Rightarrow> (nat \<times> nat) list \<Rightarrow> event list \<times> js_error option" where
  "forEach_send opn m [] = ([], None)"
| "forEach_send opn m ((cid, readyState) # cs) =
     (case opn of
        None \<Rightarrow> ([], Some (ReferenceError ''WebSocket''))
      | Some v \<Rightarrow>
          (let (evs, err) = forEach_send opn m cs
           in ((if readyState = v then [Sent cid m] else []) @ evs, err)))"

definition broadcast :: "host \<Rightarrow> message \<Rightarrow> world \<Rightarrow> world \<times> js_error option" where
  "broadcast h m w =
     (let (evs, err) = forEach_send (WebSocket_OPEN h) m (sockets w)
      in (w\<lparr>trace := trace w @ evs\<rparr>, err))"

section \<open>The periodic check for completed uploads\<close>

definition TTL :: int where
  "TTL = 30 * 60 * 1000"

text \<open>
  \<^verbatim>\<open>now - new Date(content) > 30 * 60 * 1000\<close> (lines 516-520). Content that is not a date
  gives an invalid date, the difference is NaN and the comparison is false.
\<close>

definition stale :: "int \<Rightarrow> body \<Rightarrow> bool" where
  "stale now content = (case content of Iso t \<Rightarrow> now - t > TTL | _ \<Rightarrow> False)"

text \<open>\<^verbatim>\<open>fs.readFile(flag, 'utf8').catch(() => '')\<close>\<close>

definition readFlag :: "(path \<times> node) list \<Rightarrow> path \<Rightarrow> body" where
  "readFlag d p = (case map_of d p of Some (File _ b) \<Rightarrow> b | _ \<Rightarrow> Bytes)"

definition originalFile :: "string \<Rightarrow> string" where
  "originalFile processedFlag = replace ''.processed'' [] processedFlag"

text \<open>
  The first loop (lines 502-537) over the flag files: an orphaned flag is removed, a stale
  one is removed, any other protects its file for this run. It returns the world and
  \<^verbatim>\<open>processedVideoIds\<close>. The \<^verbatim>\<open>catch\<close> of lines 527-531 is never entered, since
  \<^verbatim>\<open>new Date\<close> does not throw on text and the failure of \<^verbatim>\<open>fs.unlink\<close> is swallowed.
\<close>

fun check_flags :: "string list \<Rightarrow> world \<Rightarrow> string list \<Rightarrow> world \<times> string list" where
  "check_flags [] w ids = (w, ids)"
| "check_flags (processedFlag # rest) w ids =
     (if exists_at (disk w) (Tus (originalFile processedFlag))
      then
        (if stale (clock w) (readFlag (disk w) (Tus processedFlag))
         then check_flags rest (unlink (Tus processedFlag) w) ids
         else check_flags rest w (List.insert (originalFile processedFlag) ids))
      else check_flags rest (unlink (Tus processedFlag) w) ids)"

text \<open>
  The body of the inner \<^verbatim>\<open>try\<close> (lines 599-645): announce, encode, check the playlist,
  announce again. The result is the error thrown, if any.
\<close>

definition attempt ::
  "host \<Rightarrow> (world \<Rightarrow> world) \<Rightarrow> string \<Rightarrow> videoId \<Rightarrow> world \<Rightarrow> world \<times> js_error option" where
  "attempt h env file vid w =
     (case broadcast h (ProcessingStarted vid) w of
        (w1, Some e) \<Rightarrow> (w1, Some e)
      | (w1, None) \<Rightarrow>
          (case processVideo h env (Tus file) vid w1 of
             (w2, Some e) \<Rightarrow> (w2, Some e)
           | (w2, None) \<Rightarrow>
               (if exists_at (disk w2) (Hls vid ''playlist.m3u8'')
                then broadcast h (VideoProcessed vid (Hls vid ''playlist.m3u8'')) w2
                else (w2, Some (PlaylistMissing vid)))))"

text \<open>
  Lines 593-662: take an identity, write the flag, run the attempt; on an error remove the
  flag and announce the error (an error thrown by that announcement is caught and logged
  by the enclosing \<^verbatim>\<open>try\<close> of line 561).
\<close>

definition claim_and_process ::
  "host \<Rightarrow> (world \<Rightarrow> world) \<Rightarrow> string \<Rightarrow> world \<Rightarrow> string list \<Rightarrow> world \<times> string list" where
  "claim_and_process h env file w ids =
     (let (vid, w1) = uuidv4 w;
          w2 = writeFile (Tus (file @ ''.processed'')) (Iso (clock w1)) w1
      in case attempt h env file vid w2 of
           (w3, None) \<Rightarrow> (w3, List.insert file ids)
         | (w3, Some e) \<Rightarrow>
             (fst (broadcast h (VideoError (Some vid) e) (unlink (Tus (file @ ''.processed'')) w3)),
              ids))"

text \<open>\<^verbatim>\<open>JSON.parse\<close> of the metadata file, then \<^verbatim>\<open>info.size\<close>; \<open>None\<close> when reading or parsing throws.\<close>

definition info_size :: "(path \<times> node) list \<Rightarrow> path \<Rightarrow> nat option option" where
  "info_size d p = (case map_of d p of Some (File _ (Info s)) \<Rightarrow> Some s | _ \<Rightarrow> None)"

text \<open>Lines 561-677 for one regular file of size \<open>sz\<close>.\<close>

definition examine ::
  "host \<Rightarrow> (world \<Rightarrow> world) \<Rightarrow> string \<Rightarrow> nat \<Rightarrow> world \<Rightarrow> string list \<Rightarrow> world \<times> string list" where
  "examine h env file sz w ids =
     (if exists_at (disk w) (Tus (file @ ''.json''))
      then
        (case info_size (disk w) (Tus (file @ ''.json'')) of
           None \<Rightarrow> (w, ids)
         | Some declared \<Rightarrow>
             (if Some sz = declared
              then
                (if \<not> exists_at (disk w) (Tus (file @ ''.processed''))
                 then claim_and_process h env file w ids
                 else (w, List.insert file ids))
              else (w, ids)))
      else (w, ids))"

text \<open>
  The loop over the candidates (lines 553-679). \<^verbatim>\<open>fs.stat\<close> of a missing file throws
  outside the per-file \<^verbatim>\<open>try\<close>, which ends the run.
\<close>

fun scan_files ::
  "host \<Rightarrow> (world \<Rightarrow> world) \<Rightarrow> string list \<Rightarrow> world \<Rightarrow> string list \<Rightarrow> world" where
  "scan_files h env [] w ids = w"
| "scan_files h env (file # rest) w ids =
     (case map_of (disk w) (Tus file) of
        None \<Rightarrow> w
      | Some Dir \<Rightarrow> scan_files h env rest w ids
      | Some (File sz _) \<Rightarrow>
          (case examine h env file sz w ids of (w', ids') \<Rightarrow> scan_files h env rest w' ids'))"

text \<open>The world and \<^verbatim>\<open>processedVideoIds\<close> between the two loops of a run.\<close>

definition after_flags :: "world \<Rightarrow> world \<times> string list" where
  "after_flags w =
     check_flags (filter (\<lambda>file. endsWith file ''.processed'') (readdir_tus (disk w))) w []"

definition uploadFiles :: "world \<Rightarrow> string list \<Rightarrow> string list" where
  "uploadFiles w ids =
     filter (\<lambda>file. \<not> endsWith file ''.json'' \<and> \<not> endsWith file ''.processed'' \<and> file \<notin> set ids)
       (readdir_tus (disk w))"

text \<open>
  One run of \<^verbatim>\<open>checkForCompletedUploads\<close> (lines 489-692). The timer that calls it again five
  seconds after it has finished is outside the function; a run never overlaps another run.
\<close>

definition checkForCompletedUploads :: "host \<Rightarrow> (world \<Rightarrow> world) \<Rightarrow> world \<Rightarrow> world" where
  "checkForCompletedUploads h env w =
     (case after_flags w of (w1, ids) \<Rightarrow> scan_files h env (uploadFiles w1 ids) w1 ids)"

section \<open>The handler of the upload-finish event\<close>

datatype quality = Quality (q_name: string) (q_height: int) (q_bitrate: string) (q_preset: string)

definition qualities :: "quality list" where
  "qualities =
     [Quality ''360p'' 360 ''800k'' ''ultrafast'',
      Quality ''480p'' 480 ''1500k'' ''ultrafast'',
      Quality ''720p'' 720 ''2500k'' ''ultrafast'']"

text \<open>\<^verbatim>\<open>parseInt\<close> on text that starts with its digits: the leading decimal digits, NaN if none.\<close>

definition is_digit :: "char \<Rightarrow> bool" where
  "is_digit c = (48 \<le> (of_char c :: nat) \<and> (of_char c :: nat) \<le> 57)"

definition parseInt :: "string \<Rightarrow> int option" where
  "parseInt s =
     (case takeWhile is_digit s of
        [] \<Rightarrow> None
      | ds \<Rightarrow> Some (foldl (\<lambda>a c. 10 * a + (of_char c - 48)) 0 ds))"

text \<open>
  One entry of the master playlist (lines 329-331). The bandwidth is the text of
  \<^verbatim>\<open>parseInt(quality.bitrate)\<close> followed by \<^verbatim>\<open>000\<close>.
\<close>

definition stream_entry :: "host \<Rightarrow> int \<Rightarrow> int \<Rightarrow> quality \<Rightarrow> stream_inf" where
  "stream_entry h width height quality =
     (let targetHeight = min (q_height quality) height;
          targetWidth = scaled h targetHeight width height
      in StreamInf (map_option (\<lambda>b. b * 1000) (parseInt (q_bitrate quality)))
           targetWidth targetHeight (q_name quality @ ''.m3u8''))"

text \<open>
  The loop over the variants (lines 342-399): the encoder is started, the early
  notification is sent once, and only then is the run awaited.
\<close>

fun encode_variants ::
  "host \<Rightarrow> (world \<Rightarrow> world) \<Rightarrow> path \<Rightarrow> videoId \<Rightarrow> quality list \<Rightarrow> bool \<Rightarrow> world
     \<Rightarrow> world \<times> js_error option" where
  "encode_variants h env src vid [] notified w = (w, None)"
| "encode_variants h env src vid (q # qs) notified w =
     (case (if notified then (start_ffmpeg src vid (q_name q @ ''.m3u8'') w, None)
            else broadcast h (VideoProcessed vid (Hls vid ''playlist.m3u8''))
                   (start_ffmpeg src vid (q_name q @ ''.m3u8'') w)) of
        (w1, Some e) \<Rightarrow> (w1, Some e)
      | (w1, None) \<Rightarrow>
          (case await_ffmpeg h env src vid (q_name q @ ''.m3u8'') w1 of
             (w2, Some e) \<Rightarrow> (w2, Some e)
           | (w2, None) \<Rightarrow> encode_variants h env src vid qs True w2))"

text \<open>The \<^verbatim>\<open>try\<close> block of the handler after the identity is assigned (lines 303-409).\<close>

definition transcode_upload ::
  "host \<Rightarrow> (world \<Rightarrow> world) \<Rightarrow> path \<Rightarrow> videoId \<Rightarrow> world \<Rightarrow> world \<times> js_error option" where
  "transcode_upload h env p vid w =
     (case ffprobe h p of
        Inl e \<Rightarrow> (w, Some e)
      | Inr (width, height) \<Rightarrow>
          (case encode_variants h env p vid qualities False
                  (writeFile (Hls vid ''playlist.m3u8'')
                     (Master (map (stream_entry h width height) qualities)) w) of
             (w1, Some e) \<Rightarrow> (w1, Some e)
           | (w1, None) \<Rightarrow> (unlink p w1, None)))"

text \<open>
  The handler (lines 291-426). Its argument is \<^verbatim>\<open>event.file.path\<close>, \<open>None\<close> when the file
  data is missing. The second component is the error the handler's promise rejects with:
  an error of the \<^verbatim>\<open>try\<close> block is caught and announced, an error of the announcement
  itself is not caught. Other handlers act only while an encoder run is awaited (\<open>env\<close>);
  the awaits on the probe and on the file system are taken as immediate, and
  \<^verbatim>\<open>fs.mkdir\<close> and \<^verbatim>\<open>fs.writeFile\<close> as succeeding.
\<close>

definition upload_finish ::
  "host \<Rightarrow> (world \<Rightarrow> world) \<Rightarrow> path option \<Rightarrow> world \<Rightarrow> world \<times> js_error option" where
  "upload_finish h env file w =
     (case file of
        None \<Rightarrow> (w, None)
      | Some p \<Rightarrow>
          (case uuidv4 w of
             (vid, w1) \<Rightarrow>
               (case transcode_upload h env p vid w1 of
                  (w2, None) \<Rightarrow> (w2, None)
                | (w2, Some e) \<Rightarrow> broadcast h (VideoError (Some vid) e) w2)))"

section \<open>The query API\<close>

datatype reply =
    StatusJson videoId string "path option"
  | VideoJson video_info "bool option"
  | ErrorText string
  | ErrorOf js_error

datatype response = Response (status: nat) (json: reply)

text \<open>\<^verbatim>\<open>GET /api/videos/:videoId\<close> (lines 703-729)\<close>

definition get_video :: "world \<Rightarrow> videoId \<Rightarrow> response" where
  "get_video w vid =
     (if exists_at (disk w) (Hls vid ''playlist.m3u8'')
      then Response 200 (StatusJson vid ''processed'' (Some (Hls vid ''playlist.m3u8'')))
      else Response 200 (StatusJson vid ''processing'' None))"

text \<open>The \<^verbatim>\<open>filename\<close> field of a request body, as JSON gives it.\<close>

datatype jsval = JUndefined | JNull | JBool bool | JNum int | JStr string | JObject

fun truthy :: "jsval \<Rightarrow> bool" where
  "truthy JUndefined = False"
| "truthy JNull = False"
| "truthy (JBool b) = b"
| "truthy (JNum n) = (n \<noteq> 0)"
| "truthy (JStr s) = (s \<noteq> [])"
| "truthy JObject = True"

text \<open>\<^verbatim>\<open>processLocalVideo\<close> (lines 737-758)\<close>

definition processLocalVideo ::
  "host \<Rightarrow> (world \<Rightarrow> world) \<Rightarrow> string \<Rightarrow> world \<Rightarrow> world \<times> (js_error + video_info)" where
  "processLocalVideo h env filename w =
     (case uuidv4 w of
        (vid, w1) \<Rightarrow>
          (case processVideo h env (Upl filename) vid w1 of
             (w2, Some e) \<Rightarrow> (w2, Inl e)
           | (w2, None) \<Rightarrow>
               (w2, Inr (VideoInfo vid filename (Hls vid ''playlist.m3u8'') (clock w2)))))"

text \<open>
  \<^verbatim>\<open>POST /api/local-videos/process\<close> (lines 815-860). A truthy \<^verbatim>\<open>filename\<close> that is not a
  string makes \<^verbatim>\<open>path.join\<close> throw, which the handler's \<^verbatim>\<open>catch\<close> answers with 500.
\<close>

definition process_local ::
  "host \<Rightarrow> (world \<Rightarrow> world) \<Rightarrow> jsval \<Rightarrow> world \<Rightarrow> world \<times> response" where
  "process_local h env filename w =
     (if \<not> truthy filename then (w, Response 400 (ErrorText ''Filename is required''))
      else
        (case filename of
           JStr name \<Rightarrow>
             (if \<not> exists_at (disk w) (Upl name)
              then (w, Response 404 (ErrorText ''File not found''))
              else
                (case map_of (processedLocalVideos w) name of
                   Some stored \<Rightarrow> (w, Response 200 (VideoJson stored (Some True)))
                 | None \<Rightarrow>
                     (case processLocalVideo h env name w of
                        (w1, Inl e) \<Rightarrow> (w1, Response 500 (ErrorOf e))
                      | (w1, Inr videoInfo) \<Rightarrow>
                          (case broadcast h (LocalVideoProcessed videoInfo)
                                  (w1\<lparr>processedLocalVideos :=
                                        AList.update name videoInfo (processedLocalVideos w1)\<rparr>) of
                             (w2, Some e) \<Rightarrow> (w2, Response 500 (ErrorOf e))
                           | (w2, None) \<Rightarrow> (w2, Response 200 (VideoJson videoInfo None))))))
         | _ \<Rightarrow> (w, Response 500 (ErrorOf (TypeError ''path'')))))"

section \<open>Reading a trace\<close>

text \<open>The encoder runs that have started and not finished, and their largest number on one source.\<close>

fun step_runs :: "(path \<times> videoId \<times> string) list \<Rightarrow> event \<Rightarrow> (path \<times> videoId \<times> string) list" where
  "step_runs js (Started p vid out) = js @ [(p, vid, out)]"
| "step_runs js (Ended vid out) = filter (\<lambda>j. snd j \<noteq> (vid, out)) js"
| "step_runs js (Failed vid out m) = filter (\<lambda>j. snd j \<noteq> (vid, out)) js"
| "step_runs js _ = js"

fun peak_runs :: "path \<Rightarrow> (path \<times> videoId \<times> string) list \<Rightarrow> event list \<Rightarrow> nat" where
  "peak_runs src js [] = length (filter (\<lambda>j. fst j = src) js)"
| "peak_runs src js (e # es) =
     max (length (filter (\<lambda>j. fst j = src) js)) (peak_runs src (step_runs js e) es)"

definition started_on :: "path \<Rightarrow> event list \<Rightarrow> videoId list" where
  "started_on src tr = [vid. Started p vid out \<leftarrow> tr, p = src]"

definition sent :: "event list \<Rightarrow> (nat \<times> message) list" where
  "sent tr = [(c, m). Sent c m \<leftarrow> tr]"




section \<open>Concrete hosts and worlds\<close>

text \<open>\<^verbatim>\<open>Math.round(targetHeight * (width / height))\<close> computed exactly, halves rounded up.\<close>

definition exact_scaled :: "int \<Rightarrow> int \<Rightarrow> int \<Rightarrow> int" where
  "exact_scaled targetHeight width height =
     (2 * targetHeight * width + height) div (2 * height)"

text \<open>
  A host with a global \<^verbatim>\<open>WebSocket\<close> whose \<^verbatim>\<open>OPEN\<close> is 1, a 1920x1080 source, and an encoder
  that writes its output file and ends after a second.
\<close>

definition host_with_WebSocket :: host where
  "host_with_WebSocket =
     \<lparr>WebSocket_OPEN = Some 1,
      ffprobe = (\<lambda>p. Inr (1920, 1080)),
      ffmpeg = (\<lambda>src vid out. Run [out] None 1000),
      scaled = exact_scaled\<rparr>"

text \<open>The same host with no global \<^verbatim>\<open>WebSocket\<close>.\<close>

definition host_without_WebSocket :: host where
  "host_without_WebSocket = host_with_WebSocket\<lparr>WebSocket_OPEN := None\<rparr>"

text \<open>An upload of ten bytes whose metadata declares ten bytes; nobody is connected.\<close>

definition finished_upload :: world where
  "finished_upload =
     \<lparr>disk = [(Tus ''abc'', File 10 Bytes), (Tus ''abc.json'', File 0 (Info (Some 10)))],
      clock = 0, next_id = 0, sockets = [], processedLocalVideos = [], trace = []\<rparr>"

text \<open>The clock moves on by \<open>ms\<close> milliseconds while nothing else happens.\<close>

definition later :: "int \<Rightarrow> world \<Rightarrow> world" where
  "later ms w = w\<lparr>clock := clock w + ms\<rparr>"

text \<open>The same world with one observer connected, its socket open.\<close>

definition one_observer :: "world \<Rightarrow> world" where
  "one_observer w = w\<lparr>sockets := [(7, 1)]\<rparr>"

text \<open>A host without a global \<^verbatim>\<open>WebSocket\<close> whose encoder fails on every run.\<close>

definition host_failing_encoder :: host where
  "host_failing_encoder =
     host_without_WebSocket\<lparr>ffmpeg := (\<lambda>src vid out. Run [] (Some ''Conversion failed!'') 500)\<rparr>"

text \<open>A host with a global \<^verbatim>\<open>WebSocket\<close> whose encoder fails on every run.\<close>

definition host_failing_encoder_with_WebSocket :: host where
  "host_failing_encoder_with_WebSocket = host_failing_encoder\<lparr>WebSocket_OPEN := Some 1\<rparr>"

text \<open>A video file in the uploads directory that no request has named yet.\<close>

definition local_video :: world where
  "local_video =
     \<lparr>disk = [(Upl ''lesson.mp4'', File 10 Bytes)],
      clock = 0, next_id = 0, sockets = [], processedLocalVideos = [], trace = []\<rparr>"

text \<open>A second request for the same file, handled to its end without interruption.\<close>

definition second_request :: "world \<Rightarrow> world" where
  "second_request w = fst (process_local host_with_WebSocket alone (JStr ''lesson.mp4'') w)"

section \<open>Lemmas about the file system calls and the flag pass\<close>







lemma unlink_clock: "clock (unlink p w) = clock w"
  by (simp add: unlink_def)



lemma check_flags_clock: "clock (fst (check_flags fs w ids)) = clock w"
  by (induction fs w ids rule: check_flags.induct) (auto simp: unlink_clock)




section \<open>How the trace grows\<close>



























section \<open>Lemmas about broadcasts and encoder runs\<close>










lemma leave_files_keeps:
  "map_of d p \<noteq> None \<Longrightarrow> map_of (leave_files vid ns d) p \<noteq> None"
  by (induction ns arbitrary: d) (simp_all add: AList.update_conv')








section \<open>The claims about the periodic check\<close>



text \<open>
  The flag \<open>f.processed\<close> is read back as the flag of \<open>f\<close> whenever the name \<open>f\<close> has no dot
  in it, as the hexadecimal names given by the upload layer have none.
\<close>

lemma replace_no_occurrence:
  "c \<notin> set s \<Longrightarrow> replace (c # pat) [] (s @ c # pat) = s"
proof (induction s)
  case Nil
  then show ?case by simp
next
  case (Cons a s)
  then have "a \<noteq> c" by auto
  with Cons show ?case by simp
qed

lemma originalFile_of_flag:
  "CHR ''.'' \<notin> set f \<Longrightarrow> originalFile (f @ ''.processed'') = f"
  unfolding originalFile_def by (rule replace_no_occurrence)

text \<open>
  \<^verbatim>\<open>replace\<close> removes the first occurrence, not the ending: for a name that has the text
  \<^verbatim>\<open>.processed\<close> before its end the flag is read back as the flag of another name.
\<close>

lemma originalFile_first_occurrence:
  "originalFile (''a.processed.b'' @ ''.processed'') = ''a.b.processed''"
  by code_simp




text \<open>
  Claim C8 fails on the code. The periodic check encodes the finished upload and leaves its
  flag and the file in place. A run five seconds later does nothing. A run thirty minutes
  after that finds the flag older than \<open>TTL\<close>, removes it as stale and, in the same run,
  claims and encodes the upload again under a new identity: the first loop looks only at the
  flag's age and never at the output of the earlier attempt.
\<close>

theorem finished_upload_encoded_again_after_TTL:
  "trace (checkForCompletedUploads host_with_WebSocket alone finished_upload)
     = [Wrote (Tus ''abc.processed'') (Iso 0),
        Started (Tus ''abc'') 0 ''playlist.m3u8'',
        Ended 0 ''playlist.m3u8'']
   \<and> trace (checkForCompletedUploads host_with_WebSocket alone (later 5000
         (checkForCompletedUploads host_with_WebSocket alone finished_upload)))
     = trace (checkForCompletedUploads host_with_WebSocket alone finished_upload)
   \<and> trace (checkForCompletedUploads host_with_WebSocket alone (later TTL
         (checkForCompletedUploads host_with_WebSocket alone (later 5000
           (checkForCompletedUploads host_with_WebSocket alone finished_upload)))))
     = [Wrote (Tus ''abc.processed'') (Iso 0),
        Started (Tus ''abc'') 0 ''playlist.m3u8'',
        Ended 0 ''playlist.m3u8'',
        Removed (Tus ''abc.processed''),
        Wrote (Tus ''abc.processed'') (Iso 1806000),
        Started (Tus ''abc'') 1 ''playlist.m3u8'',
        Ended 1 ''playlist.m3u8'']"
  by code_simp

section \<open>The claims about the upload-finish handler\<close>






text \<open>
  The second scenario of the specification: a 480x270 source still gets three entries, each
  270 high.
\<close>

lemma small_source_is_not_upscaled:
  "map (stream_entry host_with_WebSocket 480 270) qualities
   = [StreamInf (Some 800000) 480 270 ''360p.m3u8'',
      StreamInf (Some 1500000) 480 270 ''480p.m3u8'',
      StreamInf (Some 2500000) 480 270 ''720p.m3u8'']"
  by code_simp

text \<open>
  Claim C1 fails on the code. The upload-finish handler neither tests nor writes the flag file
  that the periodic check takes as its claim. Here a run of the periodic check comes while the
  handler awaits its encoder runs on the finished upload: at the first await the check finds
  no flag, claims the upload and starts a second encoder run on the same source while the
  handler's first run is still going, so two runs on one source are under way at once.
\<close>

theorem scan_during_upload_finish_encodes_twice:
  "trace (fst (upload_finish host_with_WebSocket
        (checkForCompletedUploads host_with_WebSocket alone) (Some (Tus ''abc'')) finished_upload))
   = [Wrote (Hls 0 ''playlist.m3u8'')
        (Master
          [StreamInf (Some 800000) 640 360 ''360p.m3u8'',
           StreamInf (Some 1500000) 853 480 ''480p.m3u8'',
           StreamInf (Some 2500000) 1280 720 ''720p.m3u8'']),
      Started (Tus ''abc'') 0 ''360p.m3u8'',
      Wrote (Tus ''abc.processed'') (Iso 0),
      Started (Tus ''abc'') 1 ''playlist.m3u8'',
      Ended 1 ''playlist.m3u8'',
      Ended 0 ''360p.m3u8'',
      Started (Tus ''abc'') 0 ''480p.m3u8'',
      Ended 0 ''480p.m3u8'',
      Started (Tus ''abc'') 0 ''720p.m3u8'',
      Ended 0 ''720p.m3u8'',
      Removed (Tus ''abc'')]
   \<and> peak_runs (Tus ''abc'') []
     (trace (fst (upload_finish host_with_WebSocket
        (checkForCompletedUploads host_with_WebSocket alone) (Some (Tus ''abc'')) finished_upload)))
     = 2"
  by code_simp




text \<open>
  Claim C6 fails on the code where an observer is connected and the host has no global
  \<^verbatim>\<open>WebSocket\<close>. The encoder fails on the first variant, yet the upload-finish handler never
  awaits that run: its early notification throws, the announcement of the error in the
  \<^verbatim>\<open>catch\<close> block throws again, and the handler rejects with the ReferenceError; the observer
  is sent nothing. The periodic check on the same world sends nothing either. On a host that
  differs only in defining \<^verbatim>\<open>WebSocket.OPEN\<close> the handler awaits the run and the observer is sent
  the error with the identity and the encoder's message.
\<close>

theorem encode_failure_not_announced:
  "failure (ffmpeg host_failing_encoder (Tus ''abc'') 0 ''360p.m3u8'') = Some ''Conversion failed!''
   \<and> sockets (one_observer finished_upload) = [(7, 1)]
   \<and> snd (upload_finish host_failing_encoder alone (Some (Tus ''abc'')) (one_observer finished_upload))
       = Some (ReferenceError ''WebSocket'')
   \<and> sent (trace (fst (upload_finish host_failing_encoder alone (Some (Tus ''abc''))
         (one_observer finished_upload)))) = []
   \<and> sent (trace (checkForCompletedUploads host_failing_encoder alone (one_observer finished_upload))) = []
   \<and> sent (trace (fst (upload_finish host_failing_encoder_with_WebSocket alone (Some (Tus ''abc''))
         (one_observer finished_upload))))
       = [(7, VideoProcessed 0 (Hls 0 ''playlist.m3u8'')),
          (7, VideoError (Some 0) (FfmpegError ''Conversion failed!''))]"
  by code_simp

section \<open>The claims about the query API\<close>

text \<open>
  Claim C9 fails on the code for the status query: an identity with no playlist under it is
  answered with status 200 and the state \<^verbatim>\<open>processing\<close>.
\<close>

theorem status_of_unknown_identity:
  "\<not> exists_at (disk finished_upload) (Hls 42 ''playlist.m3u8'')
   \<and> get_video finished_upload 42 = Response 200 (StatusJson 42 ''processing'' None)"
  by (simp add: get_video_def finished_upload_def exists_at_def)

text \<open>
  Claim C9 as amended. A request to process a file named by a non-empty string for which the
  uploads directory has no file is answered with 404 and the body
  \<^verbatim>\<open>{error: 'File not found'}\<close>, and the world is unchanged. A status query for an identity
  with no playlist is answered with 200, the state \<^verbatim>\<open>processing\<close> and no address.
\<close>

theorem unknown_names_in_the_query_API:
  "(name \<noteq> [] \<longrightarrow> \<not> exists_at (disk w) (Upl name) \<longrightarrow>
      process_local h env (JStr name) w = (w, Response 404 (ErrorText ''File not found'')))
   \<and> (\<not> exists_at (disk w) (Hls vid ''playlist.m3u8'') \<longrightarrow>
      get_video w vid = Response 200 (StatusJson vid ''processing'' None))"
  by (simp add: process_local_def get_video_def)

theorem unknown_names_in_the_query_API_witness:
  "''missing.mp4'' \<noteq> [] \<and> \<not> exists_at (disk local_video) (Upl ''missing.mp4'')
   \<and> process_local host_with_WebSocket alone (JStr ''missing.mp4'') local_video
       = (local_video, Response 404 (ErrorText ''File not found''))
   \<and> \<not> exists_at (disk local_video) (Hls 42 ''playlist.m3u8'')
   \<and> get_video local_video 42 = Response 200 (StatusJson 42 ''processing'' None)"
  using unknown_names_in_the_query_API[of "''missing.mp4''" local_video host_with_WebSocket alone 42]
  by (simp add: local_video_def exists_at_def)

text \<open>
  Claim C7 fails on the code. A second request for the same file arrives while the first
  awaits its encoder run: the catalog of processed local videos has no entry for the file
  yet, so the second request starts an encoder run of its own, and both runs are under way
  at once.
\<close>

theorem concurrent_requests_both_encode:
  "trace (fst (process_local host_with_WebSocket second_request (JStr ''lesson.mp4'') local_video))
   = [Started (Upl ''lesson.mp4'') 0 ''playlist.m3u8'',
      Started (Upl ''lesson.mp4'') 1 ''playlist.m3u8'',
      Ended 1 ''playlist.m3u8'',
      Ended 0 ''playlist.m3u8'']
   \<and> peak_runs (Upl ''lesson.mp4'') []
        (trace (fst (process_local host_with_WebSocket second_request (JStr ''lesson.mp4'') local_video)))
      = 2"
  by code_simp

text \<open>
  Claim C7 as amended. Once a request for a file has run to its end with a successful encoder
  run, the catalog holds the file's record, and a later request for the same file is answered
  with that record marked as processed and changes nothing: it starts no encoder run. The
  catalog records only finished work, so this holds for requests one after the other, not
  for a request that arrives while another is still encoding.
\<close>

theorem repeated_request_answered_from_catalog:
  assumes "name \<noteq> []" and "exists_at (disk w) (Upl name)"
    and "map_of (processedLocalVideos w) name = None"
    and "failure (ffmpeg h (Upl name) (next_id w) ''playlist.m3u8'') = None"
  shows "process_local h env (JStr name) (fst (process_local h alone (JStr name) w))
         = (fst (process_local h alone (JStr name) w),
            Response 200
              (VideoJson
                 (VideoInfo (next_id w) name (Hls (next_id w) ''playlist.m3u8'')
                    (clock w + int (took (ffmpeg h (Upl name) (next_id w) ''playlist.m3u8''))))
                 (Some True)))"
proof -
  let ?vid = "next_id w"
  let ?r = "ffmpeg h (Upl name) ?vid ''playlist.m3u8''"
  let ?info = "VideoInfo ?vid name (Hls ?vid ''playlist.m3u8'') (clock w + int (took ?r))"
  let ?w1 = "fst (process_local h alone (JStr name) w)"
  have pl: "processLocalVideo h alone name w =
              (w\<lparr>next_id := Suc ?vid,
                 trace := trace w @ [Started (Upl name) ?vid ''playlist.m3u8'', Ended ?vid ''playlist.m3u8''],
                 disk := leave_files ?vid (wrote ?r) (disk w),
                 clock := clock w + int (took ?r)\<rparr>, Inr ?info)"
    using assms(4)
    by (simp add: processLocalVideo_def processVideo_def await_ffmpeg_def start_ffmpeg_def
          uuidv4_def alone_def Let_def)
  have cat: "map_of (processedLocalVideos ?w1) name = Some ?info"
    using assms(1,2,3) pl
    by (simp add: process_local_def broadcast_def AList.update_conv' split: prod.splits option.splits)
  have dsk: "disk ?w1 = leave_files ?vid (wrote ?r) (disk w)"
    using assms(1,2,3) pl
    by (simp add: process_local_def broadcast_def split: prod.splits option.splits)
  have "exists_at (disk ?w1) (Upl name)"
    using assms(2) dsk by (simp add: exists_at_def leave_files_keeps)
  then show ?thesis
    using assms(1) cat by (simp add: process_local_def)
qed

theorem repeated_request_answered_from_catalog_witness:
  "''lesson.mp4'' \<noteq> [] \<and> exists_at (disk local_video) (Upl ''lesson.mp4'')
   \<and> map_of (processedLocalVideos local_video) ''lesson.mp4'' = None
   \<and> failure (ffmpeg host_with_WebSocket (Upl ''lesson.mp4'') (next_id local_video) ''playlist.m3u8'') = None
   \<and> snd (process_local host_with_WebSocket alone (JStr ''lesson.mp4'')
        (fst (process_local host_with_WebSocket alone (JStr ''lesson.mp4'') local_video)))
      = Response 200 (VideoJson (VideoInfo 0 ''lesson.mp4'' (Hls 0 ''playlist.m3u8'') 1000) (Some True))
   \<and> started_on (Upl ''lesson.mp4'') (trace (fst (process_local host_with_WebSocket alone (JStr ''lesson.mp4'')
        (fst (process_local host_with_WebSocket alone (JStr ''lesson.mp4'') local_video))))) = [0]"
proof -
  have a: "''lesson.mp4'' \<noteq> []" by simp
  have b: "exists_at (disk local_video) (Upl ''lesson.mp4'')" by code_simp
  have c: "map_of (processedLocalVideos local_video) ''lesson.mp4'' = None" by code_simp
  have d: "failure (ffmpeg host_with_WebSocket (Upl ''lesson.mp4'') (next_id local_video) ''playlist.m3u8'') = None"
    by code_simp
  have e: "started_on (Upl ''lesson.mp4'')
             (trace (fst (process_local host_with_WebSocket alone (JStr ''lesson.mp4'') local_video))) = [0]"
    by code_simp
  have f: "next_id local_video = 0" "clock local_video = 0"
    "took (ffmpeg host_with_WebSocket (Upl ''lesson.mp4'') 0 ''playlist.m3u8'') = 1000"
    by (simp_all add: local_video_def host_with_WebSocket_def)
  show ?thesis
    using a b c d e f repeated_request_answered_from_catalog[OF a b c d, of alone] by simp
qed

end
